theory Spec2Isabelle
  imports Main
begin

unbundle bit_operations_syntax

section \<open>Python values used by the service\<close>

text \<open>
  A Python \<open>str\<close> is modelled as a \<^typ>\<open>string\<close>: a list of characters with code points
  below 256.  This is exactly what the HTTP layer hands to the dependencies of
  \<open>app/middleware/auth.py\<close> (header values are decoded as Latin-1).  \<open>bytes\<close> are lists of
  naturals below 256.  Exceptions are values: every function that can raise returns a sum
  whose left injection carries the exception.
\<close>

type_synonym bytes = "nat list"

datatype py_exception =
    HTTPException nat string
  | TypeError
  | ValueError
  | Binascii_Error
  | SystemExit nat

definition is_ascii :: "string \<Rightarrow> bool" where
  "is_ascii s = list_all (\<lambda>c. (of_char c :: nat) < 128) s"

text \<open>UTF-8 of one code point, and \<open>str.encode()\<close> (UTF-8 is its default).\<close>

definition utf8 :: "nat \<Rightarrow> bytes" where
  "utf8 n =
     (if n < 128 then [n]
      else if n < 2048 then [192 + n div 64, 128 + n mod 64]
      else if n < 65536 then [224 + n div 4096, 128 + (n div 64) mod 64, 128 + n mod 64]
      else [240 + n div 262144, 128 + (n div 4096) mod 64, 128 + (n div 64) mod 64,
            128 + n mod 64])"

definition encode_codepoints :: "nat list \<Rightarrow> bytes" where
  "encode_codepoints ns = concat (map utf8 ns)"

definition encode :: "string \<Rightarrow> bytes" where
  "encode s = encode_codepoints (map of_char s)"

text \<open>
  \<open>hmac.compare_digest\<close> on two \<open>str\<close> arguments: both must be ASCII-only, otherwise it
  raises \<open>TypeError\<close>; on ASCII strings it is equality (its running time is not modelled).
\<close>

definition compare_digest :: "string \<Rightarrow> string \<Rightarrow> py_exception + bool" where
  "compare_digest a b =
     (if is_ascii a \<and> is_ascii b then Inr (a = b) else Inl TypeError)"

subsection \<open>\<open>int(str)\<close> and \<open>str(int)\<close>\<close>

text \<open>
  \<open>int(s)\<close> in base 10: Unicode spaces of the Latin-1 range (NEL, NBSP) count as blanks,
  leading and trailing blanks are skipped, one sign is allowed, and the digits may be
  separated by single underscores.  More than 4300 digits raise \<open>ValueError\<close> as every
  other malformed text does; \<open>None\<close> stands for that \<open>ValueError\<close>.
\<close>

definition py_isspace :: "nat \<Rightarrow> bool" where
  "py_isspace n \<longleftrightarrow> n = 32 \<or> (9 \<le> n \<and> n \<le> 13)"

definition py_isdigit :: "nat \<Rightarrow> bool" where
  "py_isdigit n \<longleftrightarrow> 48 \<le> n \<and> n \<le> 57"

definition space_to_ascii :: "char \<Rightarrow> nat" where
  "space_to_ascii c =
     (let n = (of_char c :: nat) in if n = 133 \<or> n = 160 then 32 else n)"

fun single_underscores :: "nat list \<Rightarrow> bool" where
  "single_underscores (a # b # rest) =
     ((a \<noteq> 95 \<or> b \<noteq> 95) \<and> single_underscores (b # rest))"
| "single_underscores _ = True"

definition int_max_str_digits :: nat where
  "int_max_str_digits = 4300"

definition digits_value :: "nat list \<Rightarrow> int" where
  "digits_value ds = foldl (\<lambda>acc d. acc * 10 + (int d - 48)) 0 ds"

definition parse_unsigned :: "nat list \<Rightarrow> int option" where
  "parse_unsigned s =
     (let body = takeWhile (\<lambda>n. py_isdigit n \<or> n = 95) s;
          rest = dropWhile (\<lambda>n. py_isdigit n \<or> n = 95) s;
          ds = filter py_isdigit body
      in if body = [] \<or> hd body = 95 \<or> last body = 95 \<or> \<not> single_underscores body
            \<or> int_max_str_digits < length ds \<or> \<not> list_all py_isspace rest
         then None
         else Some (digits_value ds))"

definition py_int :: "string \<Rightarrow> int option" where
  "py_int s =
     (case dropWhile py_isspace (map space_to_ascii s) of
        [] \<Rightarrow> None
      | c # rest \<Rightarrow>
          if c = 43 then parse_unsigned rest
          else if c = 45 then map_option uminus (parse_unsigned rest)
          else parse_unsigned (c # rest))"

definition digit_char :: "nat \<Rightarrow> char" where
  "digit_char d = char_of (48 + d)"

function py_str :: "nat \<Rightarrow> string" where
  "py_str n = (if n < 10 then [digit_char n] else py_str (n div 10) @ [digit_char (n mod 10)])"
  by pat_completeness auto
termination by (relation "measure id") auto
declare py_str.simps [simp del]

section \<open>hashlib and hmac\<close>

text \<open>
  SHA-1 and SHA-256 on 32-bit words, kept as naturals; every sum and every left shift is
  masked to 32 bits.  Both hash the padded message block by block; a block is sixteen
  big-endian words.
\<close>

type_synonym u32 = nat

definition add32 :: "u32 \<Rightarrow> u32 \<Rightarrow> u32" where
  "add32 x y = (x + y) AND 4294967295"

definition not32 :: "u32 \<Rightarrow> u32" where
  "not32 x = 4294967295 - x"

definition rotl32 :: "nat \<Rightarrow> u32 \<Rightarrow> u32" where
  "rotl32 n x = (push_bit n x AND 4294967295) OR drop_bit (32 - n) x"

definition rotr32 :: "nat \<Rightarrow> u32 \<Rightarrow> u32" where
  "rotr32 n x = drop_bit n x OR (push_bit (32 - n) x AND 4294967295)"

fun be32 :: "bytes \<Rightarrow> u32 list" where
  "be32 (a # b # c # d # rest) = (((a * 256 + b) * 256 + c) * 256 + d) # be32 rest"
| "be32 _ = []"

definition bytes_of_u32 :: "u32 \<Rightarrow> bytes" where
  "bytes_of_u32 w = [drop_bit 24 w, drop_bit 16 w AND 255, drop_bit 8 w AND 255, w AND 255]"

fun zeros :: "nat \<Rightarrow> bytes" where
  "zeros n = (if n = 0 then [] else 0 # zeros (n - 1))"
declare zeros.simps [simp del]

definition be64 :: "nat \<Rightarrow> bytes" where
  "be64 n = bytes_of_u32 (drop_bit 32 n AND 4294967295) @ bytes_of_u32 (n AND 4294967295)"

definition md_pad :: "bytes \<Rightarrow> bytes" where
  "md_pad m = m @ [128] @ zeros ((64 - (length m + 9) mod 64) mod 64) @ be64 (8 * length m)"

function blocks :: "u32 list \<Rightarrow> u32 list list" where
  "blocks ws = (if ws = [] then [] else take 16 ws # blocks (drop 16 ws))"
  by pat_completeness auto
termination by (relation "measure length") auto
declare blocks.simps [simp del]

subsection \<open>SHA-1\<close>

type_synonym sha1_state = "u32 \<times> u32 \<times> u32 \<times> u32 \<times> u32"

definition sha1_f :: "nat \<Rightarrow> u32 \<Rightarrow> u32 \<Rightarrow> u32 \<Rightarrow> u32" where
  "sha1_f t b c d =
     (if t < 20 then (b AND c) OR (not32 b AND d)
      else if t < 40 then b XOR c XOR d
      else if t < 60 then (b AND c) OR (b AND d) OR (c AND d)
      else b XOR c XOR d)"

definition sha1_k :: "nat \<Rightarrow> u32" where
  "sha1_k t = (if t < 20 then 0x5A827999 else if t < 40 then 0x6ED9EBA1
               else if t < 60 then 0x8F1BBCDC else 0xCA62C1D6)"

fun sha1_round :: "nat \<Rightarrow> u32 \<Rightarrow> sha1_state \<Rightarrow> sha1_state" where
  "sha1_round t w (a, b, c, d, e) =
     (add32 (add32 (add32 (add32 (rotl32 5 a) (sha1_f t b c d)) e) (sha1_k t)) w,
      a, rotl32 30 b, c, d)"

text \<open>
  The message schedule is a window of sixteen words: round \<open>t\<close> consumes its head and
  appends word \<open>t + 16\<close>.
\<close>

function sha1_rounds :: "nat \<Rightarrow> u32 list \<Rightarrow> sha1_state \<Rightarrow> sha1_state" where
  "sha1_rounds t ws st =
     (if 80 \<le> t then st
      else sha1_rounds (t + 1)
             (tl ws @ [rotl32 1 (ws ! 13 XOR ws ! 8 XOR ws ! 2 XOR ws ! 0)])
             (sha1_round t (hd ws) st))"
  by pat_completeness auto
termination by (relation "measure (\<lambda>(t, ws, st). 80 - t)") auto
declare sha1_rounds.simps [simp del]

fun sha1_add :: "sha1_state \<Rightarrow> sha1_state \<Rightarrow> sha1_state" where
  "sha1_add (a, b, c, d, e) (a', b', c', d', e') =
     (add32 a a', add32 b b', add32 c c', add32 d d', add32 e e')"

definition sha1_compress :: "sha1_state \<Rightarrow> u32 list \<Rightarrow> sha1_state" where
  "sha1_compress st block = sha1_add st (sha1_rounds 0 block st)"

definition sha1_init :: sha1_state where
  "sha1_init = (0x67452301, 0xEFCDAB89, 0x98BADCFE, 0x10325476, 0xC3D2E1F0)"

fun sha1_out :: "sha1_state \<Rightarrow> bytes" where
  "sha1_out (a, b, c, d, e) =
     bytes_of_u32 a @ bytes_of_u32 b @ bytes_of_u32 c @ bytes_of_u32 d @ bytes_of_u32 e"

definition sha1 :: "bytes \<Rightarrow> bytes" where
  "sha1 m = sha1_out (foldl sha1_compress sha1_init (blocks (be32 (md_pad m))))"

subsection \<open>SHA-256\<close>

type_synonym sha256_state = "u32 \<times> u32 \<times> u32 \<times> u32 \<times> u32 \<times> u32 \<times> u32 \<times> u32"

text \<open>
  The round constants are the first 32 bits of the fractional parts of the cube roots of
  the first 64 primes, the initial state those of the square roots of the first 8.
\<close>

definition sha256_k :: "u32 list" where
  "sha256_k =
    [1116352408, 1899447441, 3049323471, 3921009573, 961987163, 1508970993, 2453635748,
     2870763221, 3624381080, 310598401, 607225278, 1426881987, 1925078388, 2162078206,
     2614888103, 3248222580, 3835390401, 4022224774, 264347078, 604807628, 770255983,
     1249150122, 1555081692, 1996064986, 2554220882, 2821834349, 2952996808,
     3210313671, 3336571891, 3584528711, 113926993, 338241895, 666307205, 773529912,
     1294757372, 1396182291, 1695183700, 1986661051, 2177026350, 2456956037,
     2730485921, 2820302411, 3259730800, 3345764771, 3516065817, 3600352804,
     4094571909, 275423344, 430227734, 506948616, 659060556, 883997877, 958139571,
     1322822218, 1537002063, 1747873779, 1955562222, 2024104815, 2227730452,
     2361852424, 2428436474, 2756734187, 3204031479, 3329325298]"

definition sha256_init :: sha256_state where
  "sha256_init =
    (1779033703, 3144134277, 1013904242, 2773480762, 1359893119, 2600822924, 528734635,
     1541459225)"

definition big_sigma0 :: "u32 \<Rightarrow> u32" where
  "big_sigma0 x = rotr32 2 x XOR rotr32 13 x XOR rotr32 22 x"

definition big_sigma1 :: "u32 \<Rightarrow> u32" where
  "big_sigma1 x = rotr32 6 x XOR rotr32 11 x XOR rotr32 25 x"

definition small_sigma0 :: "u32 \<Rightarrow> u32" where
  "small_sigma0 x = rotr32 7 x XOR rotr32 18 x XOR drop_bit 3 x"

definition small_sigma1 :: "u32 \<Rightarrow> u32" where
  "small_sigma1 x = rotr32 17 x XOR rotr32 19 x XOR drop_bit 10 x"

fun sha256_round :: "u32 \<Rightarrow> u32 \<Rightarrow> sha256_state \<Rightarrow> sha256_state" where
  "sha256_round k w (a, b, c, d, e, f, g, h) =
     (let t1 = add32 (add32 (add32 (add32 h (big_sigma1 e)) ((e AND f) XOR (not32 e AND g))) k) w;
          t2 = add32 (big_sigma0 a) ((a AND b) XOR (a AND c) XOR (b AND c))
      in (add32 t1 t2, a, b, c, add32 d t1, e, f, g))"

fun sha256_rounds :: "u32 list \<Rightarrow> u32 list \<Rightarrow> sha256_state \<Rightarrow> sha256_state" where
  "sha256_rounds [] ws st = st"
| "sha256_rounds (k # ks) ws st =
     sha256_rounds ks
       (tl ws @ [add32 (add32 (add32 (small_sigma1 (ws ! 14)) (ws ! 9)) (small_sigma0 (ws ! 1)))
                   (ws ! 0)])
       (sha256_round k (hd ws) st)"

fun sha256_add :: "sha256_state \<Rightarrow> sha256_state \<Rightarrow> sha256_state" where
  "sha256_add (a, b, c, d, e, f, g, h) (a', b', c', d', e', f', g', h') =
     (add32 a a', add32 b b', add32 c c', add32 d d',
      add32 e e', add32 f f', add32 g g', add32 h h')"

text \<open>Every word of a state is below \<open>2^32\<close>.\<close>

fun sha256_state_ok :: "sha256_state \<Rightarrow> bool" where
  "sha256_state_ok (a, b, c, d, e, f, g, h) \<longleftrightarrow>
     a < 4294967296 \<and> b < 4294967296 \<and> c < 4294967296 \<and> d < 4294967296 \<and>
     e < 4294967296 \<and> f < 4294967296 \<and> g < 4294967296 \<and> h < 4294967296"

definition sha256_compress :: "sha256_state \<Rightarrow> u32 list \<Rightarrow> sha256_state" where
  "sha256_compress st block = sha256_add st (sha256_rounds sha256_k block st)"

fun sha256_out :: "sha256_state \<Rightarrow> bytes" where
  "sha256_out (a, b, c, d, e, f, g, h) =
     bytes_of_u32 a @ bytes_of_u32 b @ bytes_of_u32 c @ bytes_of_u32 d @
     bytes_of_u32 e @ bytes_of_u32 f @ bytes_of_u32 g @ bytes_of_u32 h"

definition sha256 :: "bytes \<Rightarrow> bytes" where
  "sha256 m = sha256_out (foldl sha256_compress sha256_init (blocks (be32 (md_pad m))))"

subsection \<open>HMAC\<close>

text \<open>
  \<open>hmac.new(key, msg, digestmod).digest()\<close> for a hash with 64-byte blocks: a key longer
  than a block is hashed first, then padded with zero bytes to the block size.
\<close>

definition hmac_key :: "(bytes \<Rightarrow> bytes) \<Rightarrow> bytes \<Rightarrow> bytes" where
  "hmac_key h key =
     (let k = (if 64 < length key then h key else key) in k @ zeros (64 - length k))"

definition hmac_digest :: "(bytes \<Rightarrow> bytes) \<Rightarrow> bytes \<Rightarrow> bytes \<Rightarrow> bytes" where
  "hmac_digest h key msg =
     (let k = hmac_key h key
      in h (map (\<lambda>b. b XOR 92) k @ h (map (\<lambda>b. b XOR 54) k @ msg)))"

definition hex_char :: "nat \<Rightarrow> char" where
  "hex_char d = (if d < 10 then char_of (48 + d) else char_of (87 + d))"

definition hexdigest :: "bytes \<Rightarrow> string" where
  "hexdigest bs = concat (map (\<lambda>b. [hex_char (b div 16), hex_char (b mod 16)]) bs)"


section \<open>base64.b32decode\<close>

text \<open>
  \<open>base64.b32decode(s, casefold=True)\<close> on a \<open>str\<close>: a non-ASCII string raises
  \<open>ValueError\<close>; a length that is not a multiple of 8, a character outside the alphabet and
  a wrong number of pad characters raise \<open>binascii.Error\<close>.
\<close>

definition ascii_upper :: "nat \<Rightarrow> nat" where
  "ascii_upper c = (if 97 \<le> c \<and> c \<le> 122 then c - 32 else c)"

definition b32_value :: "nat \<Rightarrow> nat option" where
  "b32_value c =
     (if 65 \<le> c \<and> c \<le> 90 then Some (c - 65)
      else if 50 \<le> c \<and> c \<le> 55 then Some (c - 24)
      else None)"

fun b32_quantum :: "nat list \<Rightarrow> nat \<Rightarrow> nat option" where
  "b32_quantum [] acc = Some acc"
| "b32_quantum (c # cs) acc =
     (case b32_value c of None \<Rightarrow> None | Some v \<Rightarrow> b32_quantum cs (acc * 32 + v))"

definition to_bytes5 :: "nat \<Rightarrow> bytes" where
  "to_bytes5 n = [(n div 4294967296) mod 256, (n div 16777216) mod 256, (n div 65536) mod 256,
                  (n div 256) mod 256, n mod 256]"

text \<open>The decoded bytes of all quanta, and the accumulator of the last one.\<close>

function b32_quanta :: "nat list \<Rightarrow> (bytes \<times> nat) option" where
  "b32_quanta s =
     (if s = [] then Some ([], 0)
      else case b32_quantum (take 8 s) 0 of
             None \<Rightarrow> None
           | Some acc \<Rightarrow>
               (case b32_quanta (drop 8 s) of
                  None \<Rightarrow> None
                | Some (rest, last_acc) \<Rightarrow>
                    Some (to_bytes5 acc @ rest, if drop 8 s = [] then acc else last_acc)))"
  by pat_completeness auto
termination by (relation "measure length") auto
declare b32_quanta.simps [simp del]

definition rstrip :: "nat \<Rightarrow> nat list \<Rightarrow> nat list" where
  "rstrip c s = rev (dropWhile (\<lambda>x. x = c) (rev s))"

definition b32decode :: "string \<Rightarrow> py_exception + bytes" where
  "b32decode s =
     (if \<not> is_ascii s then Inl ValueError
      else
        let bs = map (\<lambda>c. ascii_upper (of_char c)) s;
            l = length bs
        in if l mod 8 \<noteq> 0 then Inl Binascii_Error
           else
             let stripped = rstrip 61 bs;
                 padchars = l - length stripped
             in case b32_quanta stripped of
                  None \<Rightarrow> Inl Binascii_Error
                | Some (decoded, acc) \<Rightarrow>
                    if padchars \<notin> {0, 1, 3, 4, 6} then Inl Binascii_Error
                    else if padchars \<noteq> 0 \<and> decoded \<noteq> [] then
                      Inr (take (length decoded - 5) decoded @
                           take ((43 - 5 * padchars) div 8) (to_bytes5 (acc * 2 ^ (5 * padchars))))
                    else Inr decoded)"

section \<open>pyotp\<close>

text \<open>
  \<open>pyotp.TOTP(secret)\<close> with its defaults: six digits, SHA-1, an interval of 30 seconds.
  The clock is an argument: \<open>t\<close> is the Unix time, in whole seconds, that the call reads.
\<close>

definition byte_secret :: "string \<Rightarrow> py_exception + bytes" where
  "byte_secret secret =
     (let missing_padding = length secret mod 8
      in b32decode (if missing_padding \<noteq> 0
                    then secret @ replicate (8 - missing_padding) (CHR ''='')
                    else secret))"

function le_bytes :: "nat \<Rightarrow> bytes" where
  "le_bytes i = (if i = 0 then [] else (i mod 256) # le_bytes (i div 256))"
  by pat_completeness auto
termination by (relation "measure id") auto
declare le_bytes.simps [simp del]

definition int_to_bytestring :: "nat \<Rightarrow> bytes" where
  "int_to_bytestring i = (let r = rev (le_bytes i) in zeros (8 - length r) @ r)"

definition truncate_hash :: "bytes \<Rightarrow> nat" where
  "truncate_hash hmac_hash =
     (let offset = last hmac_hash AND 15
      in push_bit 24 (hmac_hash ! offset AND 127)
         OR push_bit 16 (hmac_hash ! (offset + 1) AND 255)
         OR push_bit 8 (hmac_hash ! (offset + 2) AND 255)
         OR (hmac_hash ! (offset + 3) AND 255))"

text \<open>The code of a counter under a decoded key: the last six digits of \<open>10^10 + code mod 10^6\<close>.\<close>

definition hotp :: "bytes \<Rightarrow> nat \<Rightarrow> string" where
  "hotp key counter =
     (let code = truncate_hash (hmac_digest sha1 key (int_to_bytestring counter));
          str_code = py_str (10000000000 + code mod 10 ^ 6)
      in drop (length str_code - 6) str_code)"

definition generate_otp :: "string \<Rightarrow> int \<Rightarrow> py_exception + string" where
  "generate_otp secret input =
     (if input < 0 then Inl ValueError
      else case byte_secret secret of
             Inl e \<Rightarrow> Inl e
           | Inr key \<Rightarrow> Inr (hotp key (nat input)))"

text \<open>\<open>int(seconds / 30)\<close>: the quotient truncated towards zero.\<close>

definition timecode :: "int \<Rightarrow> int" where
  "timecode t = (if 0 \<le> t then t div 30 else - ((- t) div 30))"

definition totp_now :: "string \<Rightarrow> int \<Rightarrow> py_exception + string" where
  "totp_now secret t = generate_otp secret (timecode t)"

definition totp_at :: "string \<Rightarrow> int \<Rightarrow> int \<Rightarrow> py_exception + string" where
  "totp_at secret for_time counter_offset = generate_otp secret (timecode for_time + counter_offset)"

text \<open>
  \<open>pyotp.utils.strings_equal\<close> normalises both strings to NFKC and compares their UTF-8
  bytes.  On code points below 256 NFKC works character by character: fourteen characters
  have a compatibility mapping, every other one is left as it is.
\<close>

definition nfkc_char :: "char \<Rightarrow> nat list" where
  "nfkc_char c =
     (let n = (of_char c :: nat)
      in if n = 0xA0 then [0x20]
         else if n = 0xA8 then [0x20, 0x308]
         else if n = 0xAA then [0x61]
         else if n = 0xAF then [0x20, 0x304]
         else if n = 0xB2 then [0x32]
         else if n = 0xB3 then [0x33]
         else if n = 0xB4 then [0x20, 0x301]
         else if n = 0xB5 then [0x3BC]
         else if n = 0xB8 then [0x20, 0x327]
         else if n = 0xB9 then [0x31]
         else if n = 0xBA then [0x6F]
         else if n = 0xBC then [0x31, 0x2044, 0x34]
         else if n = 0xBD then [0x31, 0x2044, 0x32]
         else if n = 0xBE then [0x33, 0x2044, 0x34]
         else [n])"

definition normalize_nfkc :: "string \<Rightarrow> nat list" where
  "normalize_nfkc s = concat (map nfkc_char s)"

definition strings_equal :: "string \<Rightarrow> string \<Rightarrow> bool" where
  "strings_equal s1 s2 \<longleftrightarrow>
     encode_codepoints (normalize_nfkc s1) = encode_codepoints (normalize_nfkc s2)"

text \<open>\<open>TOTP.verify(otp, valid_window=w)\<close>: the offsets \<open>-w .. w\<close> in order, first match wins.\<close>

fun verify_offsets :: "string \<Rightarrow> string \<Rightarrow> int \<Rightarrow> int list \<Rightarrow> py_exception + bool" where
  "verify_offsets secret otp for_time [] = Inr False"
| "verify_offsets secret otp for_time (i # rest) =
     (case totp_at secret for_time i of
        Inl e \<Rightarrow> Inl e
      | Inr code \<Rightarrow>
          if strings_equal otp code then Inr True
          else verify_offsets secret otp for_time rest)"

definition totp_verify :: "string \<Rightarrow> string \<Rightarrow> int \<Rightarrow> int \<Rightarrow> py_exception + bool" where
  "totp_verify secret otp for_time valid_window =
     (if valid_window \<noteq> 0 then verify_offsets secret otp for_time [- valid_window .. valid_window]
      else case totp_at secret for_time 0 of
             Inl e \<Rightarrow> Inl e
           | Inr code \<Rightarrow> Inr (strings_equal otp code))"

section \<open>app/core/config.py\<close>

record settings =
  API_KEY :: string
  OTP_SECRET :: string
  HOST :: string
  PORT :: int
  ENABLE_DOCS :: bool

definition getenv :: "(string \<rightharpoonup> string) \<Rightarrow> string \<Rightarrow> string \<Rightarrow> string" where
  "getenv env name dflt = (case env name of None \<Rightarrow> dflt | Some v \<Rightarrow> v)"

definition lower_char :: "char \<Rightarrow> char" where
  "lower_char c =
     (let n = (of_char c :: nat) in if 65 \<le> n \<and> n \<le> 90 then char_of (n + 32) else c)"

text \<open>
  \<open>Settings._validate\<close>: \<open>sys.exit(1)\<close> when a required variable is empty, and when the
  trial call \<open>totp.now()\<close> raises anything.  \<open>t\<close> is the clock that trial call reads.
\<close>

definition Settings_validate :: "settings \<Rightarrow> int \<Rightarrow> py_exception + unit" where
  "Settings_validate self t =
     (let missing = (if API_KEY self = [] then [''API_KEY''] else []) @
                    (if OTP_SECRET self = [] then [''OTP_SECRET''] else [])
      in if missing \<noteq> [] then Inl (SystemExit 1)
         else case totp_now (OTP_SECRET self) t of
                Inl e \<Rightarrow> Inl (SystemExit 1)
              | Inr code \<Rightarrow> Inr ())"

definition Settings_init :: "(string \<rightharpoonup> string) \<Rightarrow> int \<Rightarrow> py_exception + settings" where
  "Settings_init env t =
     (case py_int (getenv env ''PORT'' ''8000'') of
        None \<Rightarrow> Inl ValueError
      | Some port \<Rightarrow>
          let self = \<lparr> API_KEY = getenv env ''API_KEY'' [],
                       OTP_SECRET = getenv env ''OTP_SECRET'' [],
                       HOST = getenv env ''HOST'' ''0.0.0.0'',
                       PORT = port,
                       ENABLE_DOCS = (map lower_char (getenv env ''ENABLE_DOCS'' ''false'') = ''true'') \<rparr>
          in case Settings_validate self t of
               Inl e \<Rightarrow> Inl e
             | Inr u \<Rightarrow> Inr self)"

section \<open>app/core/totp.py\<close>

record otp_response =
  otp :: string
  valid_for_seconds :: int
  timestamp :: int

text \<open>
  \<open>get_otp\<close> reads the clock twice: \<open>totp.now()\<close> reads \<open>t_code\<close>, then
  \<open>int(time.time())\<close> reads \<open>t_now\<close>.
\<close>

definition get_otp :: "settings \<Rightarrow> int \<Rightarrow> int \<Rightarrow> py_exception + otp_response" where
  "get_otp cfg t_code t_now =
     (case totp_now (OTP_SECRET cfg) t_code of
        Inl e \<Rightarrow> Inl e
      | Inr code \<Rightarrow>
          let now = t_now;
              valid_for = 30 - now mod 30
          in Inr \<lparr> otp = code, valid_for_seconds = valid_for, timestamp = now \<rparr>)"

definition verify_otp :: "settings \<Rightarrow> int \<Rightarrow> string \<Rightarrow> py_exception + bool" where
  "verify_otp cfg t code = totp_verify (OTP_SECRET cfg) code t 1"

section \<open>app/middleware/auth.py\<close>

definition SIGNATURE_MAX_AGE_SECONDS :: int where
  "SIGNATURE_MAX_AGE_SECONDS = 30"

definition require_api_key :: "settings \<Rightarrow> string option \<Rightarrow> py_exception + string" where
  "require_api_key cfg x_api_key =
     (case x_api_key of
        None \<Rightarrow> Inl (HTTPException 401 ''X-API-Key header is required'')
      | Some key \<Rightarrow>
          (case compare_digest key (API_KEY cfg) of
             Inl e \<Rightarrow> Inl e
           | Inr same \<Rightarrow>
               if \<not> same then Inl (HTTPException 403 ''Invalid API key'')
               else Inr key))"

text \<open>
  \<open>require_hmac_signature\<close> returns, next to its result, the calls it made in order: the
  clock read, the computation of the expected digest, and the comparison.
\<close>

datatype event = Clock_Read | Hmac_Computed | Digest_Compared

definition expected_signature :: "string \<Rightarrow> string \<Rightarrow> string" where
  "expected_signature api_key x_timestamp =
     hexdigest (hmac_digest sha256 (encode api_key) (encode x_timestamp))"

definition require_hmac_signature_run ::
  "string \<Rightarrow> string option \<Rightarrow> string option \<Rightarrow> int \<Rightarrow> event list \<times> (py_exception + unit)" where
  "require_hmac_signature_run api_key x_timestamp x_signature now =
     (case x_timestamp of
        None \<Rightarrow> ([], Inl (HTTPException 401 ''X-Timestamp header is required''))
      | Some ts \<Rightarrow>
     (case x_signature of
        None \<Rightarrow> ([], Inl (HTTPException 401 ''X-Signature header is required''))
      | Some sg \<Rightarrow>
     (case py_int ts of
        None \<Rightarrow> ([], Inl (HTTPException 400 ''X-Timestamp must be a unix integer''))
      | Some request_time \<Rightarrow>
          let age = \<bar>now - request_time\<bar>
          in if age > SIGNATURE_MAX_AGE_SECONDS
             then ([Clock_Read], Inl (HTTPException 401 ''Request timestamp is expired''))
             else
               let expected = expected_signature api_key ts
               in case compare_digest sg expected of
                    Inl e \<Rightarrow> ([Clock_Read, Hmac_Computed, Digest_Compared], Inl e)
                  | Inr same \<Rightarrow>
                      if \<not> same
                      then ([Clock_Read, Hmac_Computed, Digest_Compared],
                            Inl (HTTPException 403 ''Invalid request signature''))
                      else ([Clock_Read, Hmac_Computed, Digest_Compared], Inr ()))))"

definition require_hmac_signature ::
  "string \<Rightarrow> string option \<Rightarrow> string option \<Rightarrow> int \<Rightarrow> py_exception + unit" where
  "require_hmac_signature api_key x_timestamp x_signature now =
     snd (require_hmac_signature_run api_key x_timestamp x_signature now)"

text \<open>
  The dependency chain of \<open>GET /otp/secure\<close>: \<open>require_hmac_signature\<close> depends on
  \<open>require_api_key\<close>, whose result is its \<open>api_key\<close> argument.
\<close>

definition secure_dependencies ::
  "settings \<Rightarrow> string option \<Rightarrow> string option \<Rightarrow> string option \<Rightarrow> int \<Rightarrow> py_exception + unit" where
  "secure_dependencies cfg x_api_key x_timestamp x_signature now =
     (case require_api_key cfg x_api_key of
        Inl e \<Rightarrow> Inl e
      | Inr api_key \<Rightarrow> require_hmac_signature api_key x_timestamp x_signature now)"

text \<open>
  The status a client sees: an \<open>HTTPException\<close> carries its own, anything else is caught
  by the handler of \<open>app/main.py\<close> and answered with 500.
\<close>

fun response_status :: "py_exception \<Rightarrow> nat" where
  "response_status (HTTPException status detail) = status"
| "response_status _ = 500"

section \<open>Basic facts about the Python values\<close>

lemma is_ascii_Nil [simp]: "is_ascii []"
  by (simp add: is_ascii_def)

lemma is_ascii_Cons [simp]: "is_ascii (c # s) \<longleftrightarrow> (of_char c :: nat) < 128 \<and> is_ascii s"
  by (simp add: is_ascii_def)

lemma is_ascii_append [simp]: "is_ascii (a @ b) \<longleftrightarrow> is_ascii a \<and> is_ascii b"
  by (simp add: is_ascii_def)

lemma is_ascii_concat: "(\<And>x. x \<in> set xs \<Longrightarrow> is_ascii x) \<Longrightarrow> is_ascii (concat xs)"
  by (induction xs) simp_all

lemma compare_digest_ascii:
  "is_ascii a \<Longrightarrow> is_ascii b \<Longrightarrow> compare_digest a b = Inr (a = b)"
  by (simp add: compare_digest_def)

lemma compare_digest_non_ascii:
  "\<not> is_ascii a \<or> \<not> is_ascii b \<Longrightarrow> compare_digest a b = Inl TypeError"
  by (auto simp: compare_digest_def)

lemma hex_char_ascii: "d < 16 \<Longrightarrow> (of_char (hex_char d) :: nat) < 128"
  by (simp add: hex_char_def)

lemma is_ascii_hexdigest:
  assumes "\<And>b. b \<in> set bs \<Longrightarrow> b < 256"
  shows "is_ascii (hexdigest bs)"
  unfolding hexdigest_def
proof (rule is_ascii_concat)
  fix x assume "x \<in> set (map (\<lambda>b. [hex_char (b div 16), hex_char (b mod 16)]) bs)"
  then obtain b where b: "b \<in> set bs" and x: "x = [hex_char (b div 16), hex_char (b mod 16)]"
    by auto
  from assms [OF b] have "b div 16 < 16" by simp
  then show "is_ascii x" by (simp add: x hex_char_ascii)
qed

subsection \<open>Digest bytes are bytes\<close>

lemma and_mask32: "x AND 4294967295 = x mod 4294967296" for x :: nat
proof -
  have "x AND mask 32 = x mod 2 ^ 32"
    by (simp add: take_bit_eq_mod flip: take_bit_eq_mask)
  then show ?thesis
    by (simp add: mask_eq_exp_minus_1)
qed

lemma and_mask8: "x AND 255 = x mod 256" for x :: nat
proof -
  have "x AND mask 8 = x mod 2 ^ 8"
    by (simp add: take_bit_eq_mod flip: take_bit_eq_mask)
  then show ?thesis
    by (simp add: mask_eq_exp_minus_1)
qed

lemma bytes_of_u32_bound:
  "w < 4294967296 \<Longrightarrow> b \<in> set (bytes_of_u32 w) \<Longrightarrow> b < 256"
  by (auto simp: bytes_of_u32_def and_mask8 drop_bit_eq_div)

lemma add32_bound [simp]: "add32 x y < 4294967296"
  by (simp add: add32_def and_mask32)

lemma sha256_add_ok: "sha256_state_ok (sha256_add s s')"
  by (cases s rule: sha256_state_ok.cases; cases s' rule: sha256_state_ok.cases) simp

lemma sha256_foldl_ok:
  "sha256_state_ok st \<Longrightarrow> sha256_state_ok (foldl sha256_compress st bs)"
  by (induction bs arbitrary: st) (simp_all add: sha256_compress_def sha256_add_ok)

lemma sha256_out_bound: "sha256_state_ok st \<Longrightarrow> b \<in> set (sha256_out st) \<Longrightarrow> b < 256"
  by (cases st rule: sha256_state_ok.cases) (auto dest: bytes_of_u32_bound)

lemma sha256_bytes: "b \<in> set (sha256 m) \<Longrightarrow> b < 256"
  unfolding sha256_def
  by (rule sha256_out_bound [OF sha256_foldl_ok]) (simp_all add: sha256_init_def)

lemma hmac_sha256_bytes: "b \<in> set (hmac_digest sha256 key msg) \<Longrightarrow> b < 256"
  by (simp add: hmac_digest_def Let_def sha256_bytes)

lemma is_ascii_expected_signature: "is_ascii (expected_signature api_key ts)"
  unfolding expected_signature_def by (rule is_ascii_hexdigest) (rule hmac_sha256_bytes)

section \<open>The request authenticator\<close>

lemmas py_int_eval = py_int_def parse_unsigned_def space_to_ascii_def py_isspace_def
  py_isdigit_def digits_value_def int_max_str_digits_def Let_def

lemma py_int_1700000000: "py_int ''1700000000'' = Some 1700000000"
  by (simp add: py_int_eval)

lemma py_int_12a: "py_int ''12a'' = None"
  by (simp add: py_int_eval)

text \<open>
  Claim C3.  Once the timestamp header has parsed to \<open>request_time\<close>, the age is
  \<open>\<bar>now - request_time\<bar>\<close>: an age above 30 is answered with 401 "expired", and an age of
  at most 30 passes the freshness check, so that the answer is the outcome of the signature
  comparison.  The window is symmetric: it is the absolute value that is compared.
\<close>

theorem signature_freshness_window:
  assumes "py_int ts = Some request_time"
  shows "require_hmac_signature api_key (Some ts) (Some sg) now =
           (if \<bar>now - request_time\<bar> > 30
            then Inl (HTTPException 401 ''Request timestamp is expired'')
            else case compare_digest sg (expected_signature api_key ts) of
                   Inl e \<Rightarrow> Inl e
                 | Inr same \<Rightarrow>
                     if same then Inr () else Inl (HTTPException 403 ''Invalid request signature''))"
  using assms
  by (simp add: require_hmac_signature_def require_hmac_signature_run_def
      SIGNATURE_MAX_AGE_SECONDS_def Let_def split: sum.split)

text \<open>
  The boundary, in both directions: 31 seconds in the past or in the future is expired,
  30 seconds in the past or in the future is not.
\<close>

theorem signature_freshness_window_witness:
  "py_int ''1700000000'' = Some 1700000000
 \<and> require_hmac_signature ''k1'' (Some ''1700000000'') (Some ''abc'') 1700000031 =
     Inl (HTTPException 401 ''Request timestamp is expired'')
 \<and> require_hmac_signature ''k1'' (Some ''1700000000'') (Some ''abc'') 1699999969 =
     Inl (HTTPException 401 ''Request timestamp is expired'')
 \<and> require_hmac_signature ''k1'' (Some ''1700000000'') (Some ''abc'') 1700000030 \<noteq>
     Inl (HTTPException 401 ''Request timestamp is expired'')
 \<and> require_hmac_signature ''k1'' (Some ''1700000000'') (Some ''abc'') 1699999970 \<noteq>
     Inl (HTTPException 401 ''Request timestamp is expired'')"
proof -
  note w = signature_freshness_window [OF py_int_1700000000, of "''k1''" "''abc''"]
  have c: "compare_digest ''abc'' (expected_signature ''k1'' ''1700000000'') =
             Inr (''abc'' = expected_signature ''k1'' ''1700000000'')"
    by (rule compare_digest_ascii) (simp_all add: is_ascii_expected_signature)
  show ?thesis
    using w [of 1700000031] w [of 1699999969] w [of 1700000030] w [of 1699999970]
    by (simp add: py_int_1700000000 c)
qed

text \<open>
  Claim C6.  A missing \<open>X-Timestamp\<close> or \<open>X-Signature\<close> header is answered with 401 and a
  timestamp that does not parse as an integer with 400; in all three cases nothing else
  was done (no clock read, no digest computed, no comparison).  The dependency runs only
  behind \<open>require_api_key\<close>: when that one fails, its failure is the answer.
\<close>

theorem missing_or_malformed_headers:
  "(x_timestamp = None \<longrightarrow>
      require_hmac_signature_run api_key x_timestamp x_signature now =
        ([], Inl (HTTPException 401 ''X-Timestamp header is required'')))
 \<and> (x_timestamp \<noteq> None \<and> x_signature = None \<longrightarrow>
      require_hmac_signature_run api_key x_timestamp x_signature now =
        ([], Inl (HTTPException 401 ''X-Signature header is required'')))
 \<and> (\<forall>ts sg. x_timestamp = Some ts \<and> x_signature = Some sg \<and> py_int ts = None \<longrightarrow>
      require_hmac_signature_run api_key x_timestamp x_signature now =
        ([], Inl (HTTPException 400 ''X-Timestamp must be a unix integer'')))
 \<and> (\<forall>e. require_api_key cfg x_api_key = Inl e \<longrightarrow>
      secure_dependencies cfg x_api_key x_timestamp x_signature now = Inl e)"
  by (auto simp: require_hmac_signature_run_def secure_dependencies_def split: option.split)

theorem missing_or_malformed_headers_witness:
  "require_hmac_signature_run ''k1'' None (Some ''abc'') 1700000000 =
     ([], Inl (HTTPException 401 ''X-Timestamp header is required''))
 \<and> require_hmac_signature_run ''k1'' (Some ''1700000000'') None 1700000000 =
     ([], Inl (HTTPException 401 ''X-Signature header is required''))
 \<and> py_int ''12a'' = None
 \<and> require_hmac_signature_run ''k1'' (Some ''12a'') (Some ''abc'') 1700000000 =
     ([], Inl (HTTPException 400 ''X-Timestamp must be a unix integer''))
 \<and> require_api_key \<lparr>API_KEY = ''k1'', OTP_SECRET = ''JBSWY3DPEHPK3PXP'', HOST = ''0.0.0.0'',
        PORT = 8000, ENABLE_DOCS = False\<rparr> None =
     Inl (HTTPException 401 ''X-API-Key header is required'')
 \<and> secure_dependencies \<lparr>API_KEY = ''k1'', OTP_SECRET = ''JBSWY3DPEHPK3PXP'', HOST = ''0.0.0.0'',
        PORT = 8000, ENABLE_DOCS = False\<rparr> None (Some ''1700000000'') (Some ''abc'') 1700000000 =
     Inl (HTTPException 401 ''X-API-Key header is required'')"
proof -
  let ?cfg = "\<lparr>API_KEY = ''k1'', OTP_SECRET = ''JBSWY3DPEHPK3PXP'', HOST = ''0.0.0.0'',
        PORT = 8000, ENABLE_DOCS = False\<rparr>"
  have k: "require_api_key ?cfg None = Inl (HTTPException 401 ''X-API-Key header is required'')"
    by (simp add: require_api_key_def)
  show ?thesis
    using missing_or_malformed_headers [of None "''k1''" "Some ''abc''" 1700000000 ?cfg None]
      missing_or_malformed_headers [of "Some ''1700000000''" "''k1''" None 1700000000 ?cfg None]
      missing_or_malformed_headers [of "Some ''12a''" "''k1''" "Some ''abc''" 1700000000 ?cfg None]
      missing_or_malformed_headers [of "Some ''1700000000''" "''k1''" "Some ''abc''" 1700000000 ?cfg None]
    by (simp add: py_int_12a k)
qed

text \<open>
  Claim C10.  The freshness check comes before the signature: with an age above 30 the
  answer is 401 "expired" for every provided signature, the matching one included, and
  the run has neither computed the expected digest nor compared anything.
\<close>

theorem expired_before_signature:
  assumes "py_int ts = Some request_time" and "\<bar>now - request_time\<bar> > 30"
  shows "require_hmac_signature api_key (Some ts) (Some sg) now =
           Inl (HTTPException 401 ''Request timestamp is expired'')
       \<and> require_hmac_signature api_key (Some ts) (Some (expected_signature api_key ts)) now =
           Inl (HTTPException 401 ''Request timestamp is expired'')
       \<and> Hmac_Computed \<notin> set (fst (require_hmac_signature_run api_key (Some ts) (Some sg) now))
       \<and> Digest_Compared \<notin> set (fst (require_hmac_signature_run api_key (Some ts) (Some sg) now))"
  using assms
  by (simp add: require_hmac_signature_def require_hmac_signature_run_def
      SIGNATURE_MAX_AGE_SECONDS_def Let_def)

theorem expired_before_signature_witness:
  "py_int ''1700000000'' = Some 1700000000
 \<and> \<bar>1700000100 - 1700000000\<bar> > (30::int)
 \<and> require_hmac_signature ''k1'' (Some ''1700000000'')
       (Some (expected_signature ''k1'' ''1700000000'')) 1700000100 =
     Inl (HTTPException 401 ''Request timestamp is expired'')
 \<and> require_hmac_signature_run ''k1'' (Some ''1700000000'')
       (Some (expected_signature ''k1'' ''1700000000'')) 1700000100 =
     ([Clock_Read], Inl (HTTPException 401 ''Request timestamp is expired''))"
proof -
  have a: "\<bar>1700000100 - 1700000000\<bar> > (30::int)" by simp
  have r: "require_hmac_signature_run ''k1'' (Some ''1700000000'')
       (Some (expected_signature ''k1'' ''1700000000'')) 1700000100 =
     ([Clock_Read], Inl (HTTPException 401 ''Request timestamp is expired''))"
    by (simp add: require_hmac_signature_run_def py_int_1700000000
        SIGNATURE_MAX_AGE_SECONDS_def Let_def)
  show ?thesis
    using expired_before_signature [OF py_int_1700000000 a, of "''k1''"
        "expected_signature ''k1'' ''1700000000''"] r
    by (simp add: py_int_1700000000)
qed

text \<open>
  Claim C9.  A present \<open>X-API-Key\<close> value with a character outside ASCII is answered
  neither with 401 nor with 403: the comparison raises \<open>TypeError\<close>, which the handler of
  \<open>app/main.py\<close> turns into status 500.
\<close>

theorem non_ascii_api_key_raises:
  assumes "\<not> is_ascii key"
  shows "require_api_key cfg (Some key) = Inl TypeError
       \<and> response_status TypeError = 500"
  using assms by (simp add: require_api_key_def compare_digest_def)

theorem non_ascii_api_key_raises_witness:
  "\<not> is_ascii [CHR 0xE9]
 \<and> require_api_key \<lparr>API_KEY = ''k1'', OTP_SECRET = ''JBSWY3DPEHPK3PXP'', HOST = ''0.0.0.0'',
        PORT = 8000, ENABLE_DOCS = False\<rparr> (Some [CHR 0xE9]) = Inl TypeError"
proof -
  have h: "\<not> is_ascii [CHR 0xE9]" by simp
  show ?thesis using h non_ascii_api_key_raises [OF h] by simp
qed

text \<open>
  Claim C4 at the header value made of the bytes 0x6B 0xB9 (the letter k and a superscript one), with the configured
  key \<open>k1\<close>: the value is present and differs from the key, and the answer is not 403.
\<close>

theorem api_key_non_ascii_not_403:
  "require_api_key \<lparr>API_KEY = ''k1'', OTP_SECRET = ''JBSWY3DPEHPK3PXP'', HOST = ''0.0.0.0'',
        PORT = 8000, ENABLE_DOCS = False\<rparr> (Some [CHR ''k'', CHR 0xB9]) = Inl TypeError
 \<and> response_status TypeError = 500"
  by (simp add: require_api_key_def compare_digest_def)

text \<open>
  Claim C2 at the signature header made of the one byte 0xE9, with a fresh timestamp: the
  provided signature differs from the expected digest, and the answer is not 403.
\<close>

theorem signature_non_ascii_not_403:
  "require_hmac_signature ''k1'' (Some ''1700000000'') (Some [CHR 0xE9]) 1700000000 = Inl TypeError
 \<and> [CHR 0xE9] \<noteq> expected_signature ''k1'' ''1700000000''
 \<and> response_status TypeError = 500"
proof -
  have "is_ascii (expected_signature ''k1'' ''1700000000'')"
    by (rule is_ascii_expected_signature)
  moreover have "\<not> is_ascii [CHR 0xE9]" by simp
  ultimately have "[CHR 0xE9] \<noteq> expected_signature ''k1'' ''1700000000''" by metis
  then show ?thesis
    by (simp add: require_hmac_signature_def require_hmac_signature_run_def py_int_1700000000
        SIGNATURE_MAX_AGE_SECONDS_def Let_def compare_digest_def)
qed

end
